theory Spec2Isabelle
  imports Main "HOL-Library.Sublist" "HOL-Library.AList"
begin

unbundle bit_operations_syntax

section \<open>Strings\<close>

text \<open>
  A Python \<open>str\<close> is modelled as the list of bytes of its UTF-8 encoding, a \<open>bytes\<close>
  value as the list of its bytes; both are \<^typ>\<open>string\<close>. Every character class the two
  scripts test (\<open>[A-Za-z0-9]\<close>, \<open>[a-zA-Z0-9_-]\<close>, the delimiters of a URL) is ASCII, and
  every byte of a multi-byte UTF-8 sequence lies outside ASCII, so the tests give the same
  answer on the bytes as on the code points.
\<close>

definition ascii_upper :: "char \<Rightarrow> bool" where
  "ascii_upper c = (65 \<le> (of_char c :: int) \<and> (of_char c :: int) \<le> 90)"

definition ascii_lower :: "char \<Rightarrow> bool" where
  "ascii_lower c = (97 \<le> (of_char c :: int) \<and> (of_char c :: int) \<le> 122)"

definition ascii_digit :: "char \<Rightarrow> bool" where
  "ascii_digit c = (48 \<le> (of_char c :: int) \<and> (of_char c :: int) \<le> 57)"

definition ascii_alpha :: "char \<Rightarrow> bool" where
  "ascii_alpha c = (ascii_upper c \<or> ascii_lower c)"

definition alnum :: "char \<Rightarrow> bool" where
  \<comment> \<open>the character class \<open>[A-Za-z0-9]\<close>\<close>
  "alnum c = (ascii_alpha c \<or> ascii_digit c)"

definition lower_char :: "char \<Rightarrow> char" where
  "lower_char c = (if ascii_upper c then char_of ((of_char c :: int) + 32) else c)"

definition lower :: "string \<Rightarrow> string" where
  \<comment> \<open>\<open>str.lower()\<close> on the ASCII letters\<close>
  "lower s = map lower_char s"

definition startswith :: "string \<Rightarrow> string \<Rightarrow> bool" where
  "startswith s p = prefix p s"

definition endswith :: "string \<Rightarrow> string \<Rightarrow> bool" where
  "endswith s p = suffix p s"

definition contains :: "string \<Rightarrow> string \<Rightarrow> bool" where
  \<comment> \<open>\<open>p in s\<close> on strings\<close>
  "contains s p = sublist p s"

definition strip_char :: "char \<Rightarrow> string \<Rightarrow> string" where
  \<comment> \<open>\<open>s.strip(c)\<close> for a single character \<open>c\<close>\<close>
  "strip_char c s = rev (dropWhile (\<lambda>x. x = c) (rev (dropWhile (\<lambda>x. x = c) s)))"

definition before :: "char \<Rightarrow> string \<Rightarrow> string" where
  \<comment> \<open>\<open>s.split(c, 1)[0]\<close>, also \<open>s.split(c)[0]\<close>: the part before the first \<open>c\<close>\<close>
  "before c s = takeWhile (\<lambda>x. x \<noteq> c) s"

definition after :: "char \<Rightarrow> string \<Rightarrow> string" where
  \<comment> \<open>\<open>s.split(c, 1)[1]\<close> when \<open>c\<close> occurs in \<open>s\<close>, the empty string otherwise\<close>
  "after c s = drop 1 (dropWhile (\<lambda>x. x \<noteq> c) s)"

fun split_on :: "char \<Rightarrow> string \<Rightarrow> string list" where
  \<comment> \<open>\<open>s.split(c)\<close>\<close>
  "split_on c [] = [[]]"
| "split_on c (x # xs) =
     (if x = c then [] # split_on c xs
      else (case split_on c xs of [] \<Rightarrow> [[x]] | p # ps \<Rightarrow> (x # p) # ps))"

section \<open>The library's URL parser\<close>

text \<open>
  \<open>urllib.parse.urlparse\<close> of CPython 3.11, on the URLs it accepts. It strips leading
  control characters and spaces, deletes tabs and line breaks, splits off the scheme when
  the text before the first colon is a scheme name, takes the network location between a
  leading \<open>//\<close> and the next \<open>/\<close>, \<open>?\<close> or \<open>#\<close>, then splits off fragment, query and
  parameters. The library raises \<open>ValueError\<close> on a network location with unbalanced or
  ill-formed brackets, or one that changes under NFKC normalisation; those inputs are
  outside this model.
\<close>

record url =
  scheme :: string
  netloc :: string
  path :: string
  params :: string
  query :: string
  fragment :: string

definition c0_or_space :: "char \<Rightarrow> bool" where
  "c0_or_space c = ((of_char c :: int) \<le> 32)"

definition unsafe_byte :: "char \<Rightarrow> bool" where
  "unsafe_byte c = (c = CHR 0x09 \<or> c = CHR 0x0D \<or> c = CHR 0x0A)"

definition scheme_char :: "char \<Rightarrow> bool" where
  "scheme_char c = (alnum c \<or> c = CHR ''+'' \<or> c = CHR ''-'' \<or> c = CHR ''.'')"

definition uses_params :: "string list" where
  "uses_params = ['''', ''ftp'', ''hdl'', ''prospero'', ''http'', ''imap'', ''https'', ''shttp'',
     ''rtsp'', ''rtsps'', ''rtspu'', ''sip'', ''sips'', ''mms'', ''sftp'', ''tel'']"

definition split_scheme :: "string \<Rightarrow> string \<times> string" where
  "split_scheme u =
     (let s = before CHR '':'' u in
      if CHR '':'' \<in> set u \<and> s \<noteq> [] \<and> ascii_alpha (hd s) \<and> list_all scheme_char s
      then (lower s, after CHR '':'' u) else ('''', u))"

definition splitnetloc :: "string \<Rightarrow> string \<times> string" where
  "splitnetloc u =
     (if take 2 u = ''//''
      then (takeWhile (\<lambda>c. c \<notin> set ''/?#'') (drop 2 u),
            dropWhile (\<lambda>c. c \<notin> set ''/?#'') (drop 2 u))
      else ('''', u))"

definition splitparams :: "string \<Rightarrow> string \<times> string" where
  "splitparams u =
     (let seg = rev (takeWhile (\<lambda>c. c \<noteq> CHR ''/'') (rev u)) in
      if CHR '';'' \<in> set seg
      then (take (length u - length seg) u @ before CHR '';'' seg, after CHR '';'' seg)
      else (u, ''''))"

definition urlparse :: "string \<Rightarrow> url" where
  "urlparse text =
     (let u0 = filter (\<lambda>c. \<not> unsafe_byte c) (dropWhile c0_or_space text);
          (sch, u1) = split_scheme u0;
          (loc, u2) = splitnetloc u1;
          u3 = before CHR ''#'' u2;
          u4 = before CHR ''?'' u3;
          (p, ps) = (if sch \<in> set uses_params \<and> CHR '';'' \<in> set u4
                     then splitparams u4 else (u4, ''''))
      in \<lparr>scheme = sch, netloc = loc, path = p, params = ps,
          query = after CHR ''?'' u3, fragment = after CHR ''#'' u2\<rparr>)"

section \<open>Internal links\<close>

text \<open>
  \<open>is_internal\<close> of \<open>scrap_pdf.py\<close> compares the candidate's network location with that of
  the configured \<open>ROOT_URL\<close>, which is read from the environment and is a parameter here.
\<close>

definition is_internal :: "string \<Rightarrow> string \<Rightarrow> bool" where
  "is_internal root_url link =
     (let p = urlparse link in netloc p = [] \<or> netloc p = netloc (urlparse root_url))"

text \<open>
  \<open>is_internal\<close> of \<open>scrap_wiki.py\<close> tests \<open>endswith\<close> against \<open>base_netloc\<close>, the network
  location of \<open>START_URL\<close>.
\<close>

definition wiki_is_internal :: "string \<Rightarrow> string \<Rightarrow> bool" where
  "wiki_is_internal start_url link =
     (let parsed = urlparse link
      in netloc parsed = [] \<or> endswith (netloc parsed) (netloc (urlparse start_url)))"

section \<open>Query strings\<close>

text \<open>
  \<open>urllib.parse.parse_qs\<close> with its default arguments: fields are separated by \<open>&\<close>, a
  field is split at its first \<open>=\<close>, fields whose value is empty are dropped, and in name
  and value \<open>+\<close> becomes a space and every \<open>%XX\<close> escape becomes the byte \<open>XX\<close>. (Where the
  decoded bytes are not UTF-8 the library substitutes U+FFFD; the model keeps the bytes.)
  \<open>parse_qsl\<close> is the list of pairs in order; the dictionary \<open>parse_qs\<close> builds from it
  maps a name to its values in that order, so \<open>qp.get(k, [None])[0]\<close> is the first pair
  named \<open>k\<close>, which is \<^term>\<open>map_of\<close>.
\<close>

definition hex_val :: "char \<Rightarrow> int option" where
  "hex_val c =
     (if ascii_digit c then Some ((of_char c :: int) - 48)
      else if 97 \<le> (of_char c :: int) \<and> (of_char c :: int) \<le> 102 then Some ((of_char c :: int) - 87)
      else if 65 \<le> (of_char c :: int) \<and> (of_char c :: int) \<le> 70 then Some ((of_char c :: int) - 55)
      else None)"

fun unquote :: "string \<Rightarrow> string" where
  "unquote (c # a # b # cs) =
     (if c = CHR ''%'' then
        (case (hex_val a, hex_val b) of
           (Some h, Some l) \<Rightarrow> char_of (16 * h + l) # unquote cs
         | _ \<Rightarrow> c # unquote (a # b # cs))
      else c # unquote (a # b # cs))"
| "unquote cs = cs"

definition unquote_plus :: "string \<Rightarrow> string" where
  "unquote_plus s = unquote (map (\<lambda>c. if c = CHR ''+'' then CHR '' '' else c) s)"

definition parse_qsl :: "string \<Rightarrow> (string \<times> string) list" where
  "parse_qsl qs =
     concat (map (\<lambda>name_value.
        if name_value \<noteq> [] \<and> after CHR ''='' name_value \<noteq> []
        then [(unquote_plus (before CHR ''='' name_value),
               unquote_plus (after CHR ''='' name_value))]
        else []) (split_on CHR ''&'' qs))"

section \<open>Share links of the cloud drive\<close>

definition id_char :: "char \<Rightarrow> bool" where
  \<comment> \<open>the character class \<open>[a-zA-Z0-9_-]\<close>\<close>
  "id_char c = (alnum c \<or> c = CHR ''_'' \<or> c = CHR ''-'')"

definition d_match :: "string \<Rightarrow> bool" where
  \<comment> \<open>the pattern \<open>/d/([a-zA-Z0-9_-]+)\<close> matches at the start of the string\<close>
  "d_match s = (take 3 s = ''/d/'' \<and> (case drop 3 s of [] \<Rightarrow> False | c # _ \<Rightarrow> id_char c))"

fun search_d :: "string \<Rightarrow> string option" where
  \<comment> \<open>\<open>re.search(r'/d/([a-zA-Z0-9_-]+)', href)\<close>: group 1 of the leftmost match, the
      group being greedy\<close>
  "search_d [] = None"
| "search_d (c # cs) =
     (if d_match (c # cs) then Some (takeWhile id_char (drop 3 (c # cs))) else search_d cs)"

definition direct_prefix :: string where
  "direct_prefix = ''https://drive.google.com/uc?export=download&id=''"

definition get_drive_direct_link :: "string \<Rightarrow> string" where
  "get_drive_direct_link href =
     (let file_id = (case search_d href of
                       Some g \<Rightarrow> Some g
                     | None \<Rightarrow> map_of (parse_qsl (query (urlparse href))) ''id'')
      in case file_id of
           Some i \<Rightarrow> if i \<noteq> [] then direct_prefix @ i else href
         | None \<Rightarrow> href)"

section \<open>The library's SHA-1\<close>

text \<open>
  \<open>hashlib.sha1(m).hexdigest()\<close> on a byte string (FIPS 180-4): the message is padded with
  \<open>0x80\<close>, zeros and its bit length as a 64-bit big-endian number, cut into blocks of
  sixteen 32-bit big-endian words, and each block is compressed in eighty rounds. A 32-bit
  word is an \<^typ>\<open>int\<close> between 0 and \<open>2\<^sup>3\<^sup>2 - 1\<close>; sums are reduced modulo \<open>2\<^sup>3\<^sup>2\<close>
  where they are formed, and the complement of \<open>b\<close> is \<open>2\<^sup>3\<^sup>2 - 1 - b\<close>.
\<close>

type_synonym sha_state = "int \<times> int \<times> int \<times> int \<times> int"

definition m32 :: "int \<Rightarrow> int" where
  "m32 x = x mod 4294967296"

definition rotl :: "nat \<Rightarrow> int \<Rightarrow> int" where
  \<comment> \<open>rotation of a 32-bit word to the left\<close>
  "rotl n x = m32 (x * 2 ^ n) + x div 2 ^ (32 - n)"

definition pad :: "string \<Rightarrow> string" where
  "pad m =
     (let n = length m
      in m @ [CHR 0x80] @ replicate ((119 - n mod 64) mod 64) (CHR 0x00)
           @ map (\<lambda>i. char_of ((8 * int n) div 2 ^ (8 * i))) [7, 6, 5, 4, 3, 2, 1, 0 :: nat])"

fun be_words :: "string \<Rightarrow> int list" where
  "be_words (a # b # c # d # cs) =
     (of_char a * 16777216 + of_char b * 65536 + of_char c * 256 + of_char d) # be_words cs"
| "be_words _ = []"

fun extend :: "nat \<Rightarrow> int list \<Rightarrow> int list" where
  \<comment> \<open>the message schedule, latest word first\<close>
  "extend 0 ws = ws"
| "extend (Suc k) ws = extend k (rotl 1 (ws ! 2 XOR ws ! 7 XOR ws ! 13 XOR ws ! 15) # ws)"

definition schedule :: "int list \<Rightarrow> int list" where
  "schedule block = rev (extend 64 (rev block))"

definition round_f :: "nat \<Rightarrow> int \<Rightarrow> int \<Rightarrow> int \<Rightarrow> int" where
  "round_f t b c d =
     (if t < 20 then (b AND c) OR ((4294967295 - b) AND d)
      else if t < 40 then b XOR c XOR d
      else if t < 60 then (b AND c) OR (b AND d) OR (c AND d)
      else b XOR c XOR d)"

definition round_k :: "nat \<Rightarrow> int" where
  "round_k t =
     (if t < 20 then 0x5A827999 else if t < 40 then 0x6ED9EBA1
      else if t < 60 then 0x8F1BBCDC else 0xCA62C1D6)"

fun rounds :: "nat \<Rightarrow> int list \<Rightarrow> sha_state \<Rightarrow> sha_state" where
  "rounds t [] s = s"
| "rounds t (w # ws) (a, b, c, d, e) =
     rounds (Suc t) ws
       (m32 (rotl 5 a + round_f t b c d + e + round_k t + w), a, rotl 30 b, c, d)"

definition compress :: "sha_state \<Rightarrow> int list \<Rightarrow> sha_state" where
  "compress h block =
     (case (h, rounds 0 (schedule block) h) of
        ((h0, h1, h2, h3, h4), (a, b, c, d, e)) \<Rightarrow>
          (m32 (h0 + a), m32 (h1 + b), m32 (h2 + c), m32 (h3 + d), m32 (h4 + e)))"

fun blocks :: "int list \<Rightarrow> int list list" where
  "blocks [] = []"
| "blocks ws = take 16 ws # blocks (drop 16 ws)"

fun sha_blocks :: "sha_state \<Rightarrow> int list list \<Rightarrow> sha_state" where
  "sha_blocks h [] = h"
| "sha_blocks h (b # bs) = sha_blocks (compress h b) bs"

definition sha1 :: "string \<Rightarrow> sha_state" where
  "sha1 m = sha_blocks (0x67452301, 0xEFCDAB89, 0x98BADCFE, 0x10325476, 0xC3D2E1F0)
     (blocks (be_words (pad m)))"

definition hex_digits :: string where
  "hex_digits = ''0123456789abcdef''"

definition hex32 :: "int \<Rightarrow> string" where
  "hex32 w = map (\<lambda>i. hex_digits ! nat (w div 16 ^ i mod 16)) [7, 6, 5, 4, 3, 2, 1, 0]"

definition hex_char :: "char \<Rightarrow> bool" where
  "hex_char c = (c \<in> set hex_digits)"

definition hexdigest :: "string \<Rightarrow> string" where
  "hexdigest m =
     (case sha1 m of (a, b, c, d, e) \<Rightarrow> hex32 a @ hex32 b @ hex32 c @ hex32 d @ hex32 e)"

section \<open>File names\<close>

text \<open>
  \<open>re.sub(r"[^A-Za-z0-9]+", "_", s)\<close>: scanning from the left, a character of the class
  \<open>[A-Za-z0-9]\<close> is copied, and at any other character the longest run of such characters
  is replaced by one underscore.
\<close>

function re_sub_non_alnum :: "string \<Rightarrow> string" where
  "re_sub_non_alnum [] = []"
| "re_sub_non_alnum (c # cs) =
     (if alnum c then c # re_sub_non_alnum cs
      else CHR ''_'' # re_sub_non_alnum (dropWhile (\<lambda>x. \<not> alnum x) cs))"
  by pat_completeness auto
termination
  by (relation "measure length") (auto simp: length_dropWhile_le less_Suc_eq_le)

definition sanitize :: "string \<Rightarrow> string \<Rightarrow> string" where
  "sanitize u ext =
     (let parsed = urlparse u;
          stem = re_sub_non_alnum (strip_char CHR ''/'' (path parsed));
          name = (if stem = [] then ''page'' else stem);
          digest = take 8 (hexdigest u)
      in name @ ''_'' @ digest @ ''.'' @ ext)"

text \<open>
  The file name as the specification words it: the runs of non-alphanumeric characters of
  the URL's path collapsed to underscores, an underscore, and the first eight hexadecimal
  characters of the hash of the URL.
\<close>

fun collapse_runs :: "string \<Rightarrow> string" where
  "collapse_runs [] = []"
| "collapse_runs [c] = [if alnum c then c else CHR ''_'']"
| "collapse_runs (c # d # cs) =
     (if alnum c then c # collapse_runs (d # cs)
      else if alnum d then CHR ''_'' # collapse_runs (d # cs)
      else collapse_runs (d # cs))"

definition spec_filename :: "string \<Rightarrow> string" where
  "spec_filename u = collapse_runs (path (urlparse u)) @ ''_'' @ take 8 (hexdigest u)"


section \<open>Responses and documents\<close>

text \<open>
  What a GET returns: \<open>Raised\<close> when \<open>session.get\<close> raises (timeout, DNS, connection
  reset, a URL without scheme), otherwise the status code, the \<open>Content-Type\<close> header when
  there is one, and the body. \<open>raise_for_status\<close> raises on the status codes 400 to 599.
\<close>

datatype response = Raised | Response nat "string option" string

definition fetch_ok :: "response \<Rightarrow> bool" where
  \<comment> \<open>neither \<open>session.get\<close> nor \<open>raise_for_status\<close> raises\<close>
  "fetch_ok r = (case r of Raised \<Rightarrow> False | Response st _ _ \<Rightarrow> \<not> (400 \<le> st \<and> st < 600))"

definition body :: "response \<Rightarrow> string" where
  \<comment> \<open>\<open>resp.text\<close> and \<open>resp.content\<close>\<close>
  "body r = (case r of Raised \<Rightarrow> [] | Response _ _ b \<Rightarrow> b)"

definition declared_type :: "response \<Rightarrow> string" where
  \<comment> \<open>\<open>resp.headers.get("Content-Type", "image/png")\<close>\<close>
  "declared_type r =
     (case r of Raised \<Rightarrow> ''image/png''
      | Response _ None _ \<Rightarrow> ''image/png''
      | Response _ (Some t) _ \<Rightarrow> t)"

text \<open>
  The tree BeautifulSoup builds: elements with their attribute dictionary (an association
  list, looked up by \<^term>\<open>map_of\<close> and assigned by \<^term>\<open>AList.update\<close>) and children, text
  and comments.
\<close>

datatype node =
    Element string "(string \<times> string) list" "node list"
  | Text string
  | Comment string

definition b64_chars :: string where
  "b64_chars = ''ABCDEFGHIJKLMNOPQRSTUVWXYZabcdefghijklmnopqrstuvwxyz0123456789+/''"

definition b64 :: "int \<Rightarrow> char" where
  "b64 n = b64_chars ! nat (n mod 64)"

fun b64encode :: "string \<Rightarrow> string" where
  "b64encode (a # b # c # cs) =
     (let n = of_char a * 65536 + of_char b * 256 + of_char c
      in b64 (n div 262144) # b64 (n div 4096) # b64 (n div 64) # b64 n # b64encode cs)"
| "b64encode [a, b] =
     (let n = of_char a * 65536 + of_char b * 256
      in [b64 (n div 262144), b64 (n div 4096), b64 (n div 64), CHR ''=''])"
| "b64encode [a] =
     (let n = of_char a * 65536
      in [b64 (n div 262144), b64 (n div 4096), CHR ''='', CHR ''=''])"
| "b64encode [] = []"

definition data_uri :: "response \<Rightarrow> string" where
  "data_uri r = ''data:'' @ declared_type r @ '';base64,'' @ b64encode (body r)"

section \<open>Cleaning a page\<close>

fun decompose_scripts :: "node \<Rightarrow> node list" where
  \<comment> \<open>the loop over \<open>soup(["script", "noscript"])\<close>\<close>
  "decompose_scripts (Element t as cs) =
     (if t = ''script'' \<or> t = ''noscript'' then []
      else [Element t as (concat (map decompose_scripts cs))])"
| "decompose_scripts n = [n]"

fun extract_comments :: "node \<Rightarrow> node list" where
  "extract_comments (Element t as cs) = [Element t as (concat (map extract_comments cs))]"
| "extract_comments (Comment _) = []"
| "extract_comments n = [n]"

fun img_srcs :: "node \<Rightarrow> string list" where
  \<comment> \<open>the \<open>src\<close> of every element of \<open>find_all("img", src=True)\<close>, in document order\<close>
  "img_srcs (Element t as cs) =
     (case (if t = ''img'' then map_of as ''src'' else None) of
        Some src \<Rightarrow> src # concat (map img_srcs cs)
      | None \<Rightarrow> concat (map img_srcs cs))"
| "img_srcs _ = []"

fun embed_images :: "(string \<Rightarrow> response) \<Rightarrow> node \<Rightarrow> node list" where
  "embed_images get (Element t as cs) =
     (case (if t = ''img'' then map_of as ''src'' else None) of
        Some src \<Rightarrow>
          if startswith src ''data:'' then [Element t as (concat (map (embed_images get) cs))]
          else if fetch_ok (get src)
          then [Element t (AList.update ''src'' (data_uri (get src)) as)
                  (concat (map (embed_images get) cs))]
          else []
      | None \<Rightarrow> [Element t as (concat (map (embed_images get) cs))])"
| "embed_images get n = [n]"

definition bad_hosts :: "string list" where
  "bad_hosts = [''fonts.googleapis.com'', ''gstatic.com'']"

definition is_space :: "char \<Rightarrow> bool" where
  "is_space c = (c = CHR '' '' \<or> (9 \<le> (of_char c :: int) \<and> (of_char c :: int) \<le> 13))"

function split_ws :: "string \<Rightarrow> string list" where
  \<comment> \<open>the values of a multi-valued attribute such as \<open>rel\<close> or \<open>class\<close>\<close>
  "split_ws [] = []"
| "split_ws (c # cs) =
     (if is_space c then split_ws cs
      else (c # takeWhile (\<lambda>x. \<not> is_space x) cs)
             # split_ws (dropWhile (\<lambda>x. \<not> is_space x) cs))"
  by pat_completeness auto
termination
  by (relation "measure length") (auto simp: length_dropWhile_le less_Suc_eq_le)

definition has_value :: "(string \<times> string) list \<Rightarrow> string \<Rightarrow> string \<Rightarrow> bool" where
  \<comment> \<open>a multi-valued attribute has the value \<open>v\<close> among its values\<close>
  "has_value as k v = (case map_of as k of None \<Rightarrow> False | Some x \<Rightarrow> v \<in> set (split_ws x))"

definition attr_or :: "(string \<times> string) list \<Rightarrow> string \<Rightarrow> string \<Rightarrow> string" where
  \<comment> \<open>\<open>tag.get(k, d)\<close>\<close>
  "attr_or as k d = (case map_of as k of None \<Rightarrow> d | Some x \<Rightarrow> x)"

fun drop_font_links :: "node \<Rightarrow> node list" where
  "drop_font_links (Element t as cs) =
     (if t = ''link'' \<and> has_value as ''rel'' ''stylesheet''
         \<and> list_ex (\<lambda>host. contains (attr_or as ''href'' []) host) bad_hosts
      then []
      else [Element t as (concat (map drop_font_links cs))])"
| "drop_font_links n = [n]"

fun normalize_inputs :: "node \<Rightarrow> node" where
  "normalize_inputs (Element t as cs) =
     Element t
       (if t = ''input'' \<and> attr_or as ''type'' ''text'' \<notin> set [''text'', ''hidden'', ''checkbox'']
        then AList.update ''type'' ''text'' as else as)
       (map normalize_inputs cs)"
| "normalize_inputs n = n"

definition clean_soup :: "(string \<Rightarrow> response) \<Rightarrow> node list \<Rightarrow> node list" where
  \<comment> \<open>the four passes of \<open>clean_html\<close> over the parsed document\<close>
  "clean_soup get ns =
     map normalize_inputs
       (concat (map drop_font_links
         (concat (map (embed_images get)
           (concat (map extract_comments
             (concat (map decompose_scripts ns))))))))"

definition image_requests :: "node list \<Rightarrow> string list" where
  \<comment> \<open>the addresses \<open>clean_html\<close> requests, in order: the list of images is taken once,
      after scripts and comments are gone\<close>
  "image_requests ns =
     filter (\<lambda>src. \<not> startswith src ''data:'')
       (concat (map img_srcs (concat (map extract_comments (concat (map decompose_scripts ns))))))"



section \<open>The archiver: environment, state and trace\<close>

text \<open>
  What \<open>scrap_pdf.py\<close> takes from outside is gathered in \<open>env\<close>: the two configured
  addresses, the network (\<open>session.get\<close> followed by \<open>raise_for_status\<close>, and the streamed
  GET of a release), the HTML parser and serialiser of BeautifulSoup, the PDF renderer
  \<open>pisa.CreatePDF\<close> (its error count and what it wrote to the buffer) and \<open>urljoin\<close>.
  The network is fixed for the length of a run.
\<close>

record stream =
  status_code :: nat
  first_chunk :: "string option"
  remaining :: string
  complete :: bool

text \<open>
  A streamed response: \<open>first_chunk\<close> is \<open>next(r.iter_content(1024), b"")\<close>, \<open>None\<close> when
  reading it raises; \<open>remaining\<close> are the bytes \<open>r.iter_content(65536)\<close> delivers after it,
  and \<open>complete\<close> is false when that iteration raises after delivering them.
\<close>

record env =
  root_url :: string
  build_history :: string
  start_url :: string
  http_get :: "string \<Rightarrow> response"
  http_stream :: "string \<Rightarrow> stream option"
  soup :: "string \<Rightarrow> node list"
  soup_str :: "node list \<Rightarrow> string"
  create_pdf :: "string \<Rightarrow> nat \<times> string"
  urljoin :: "string \<Rightarrow> string \<Rightarrow> string"

text \<open>
  The state is the module's \<open>visited\<close> set and the files under \<open>OUT_DIR\<close>, by their path
  relative to it. The trace records, in order, every request, every rendering and every
  line printed.
\<close>

datatype event =
    Get_Page string
  | Get_Image string
  | Create_PDF string
  | Error_Fetch string
  | Error_Render string
  | Saved_PDF string string
  | Get_Index
  | Error_Index
  | Get_Release string
  | Skip_Forbidden string
  | Skip_Non_PDF string
  | Downloaded string string
  | Error_Download string
  | Total_Saved nat

record state =
  visited :: "string set"
  files :: "string \<rightharpoonup> string"
  trace :: "event list"

definition log :: "event list \<Rightarrow> state \<Rightarrow> state" where
  "log es s = s\<lparr>trace := trace s @ es\<rparr>"

definition clean_html :: "env \<Rightarrow> string \<Rightarrow> string" where
  "clean_html env raw_html = soup_str env (clean_soup (http_get env) (soup env raw_html))"

definition pages_file :: "string \<Rightarrow> string" where
  \<comment> \<open>\<open>PAGES_DIR / sanitize(url, "pdf")\<close>\<close>
  "pages_file u = ''pages/'' @ sanitize u ''pdf''"

definition releases_file :: "string \<Rightarrow> string" where
  \<comment> \<open>\<open>RELEASES_DIR / sanitize(pdf_url, "pdf")\<close>\<close>
  "releases_file u = ''releases/'' @ sanitize u ''pdf''"

definition save_html_as_pdf :: "env \<Rightarrow> string \<Rightarrow> string \<Rightarrow> state \<Rightarrow> state" where
  "save_html_as_pdf env u html s =
     (let pdf_file = pages_file u in
      if files s pdf_file \<noteq> None then s
      else
        let safe_html = clean_html env html;
            s1 = log (map Get_Image (image_requests (soup env html)) @ [Create_PDF u]) s;
            result = create_pdf env safe_html
        in if fst result \<noteq> 0 then log [Error_Render u] s1
           else log [Saved_PDF pdf_file u] (s1\<lparr>files := (files s1)(pdf_file \<mapsto> snd result)\<rparr>))"

fun anchor_hrefs :: "node \<Rightarrow> string list" where
  \<comment> \<open>the \<open>href\<close> of every element of \<open>find_all("a", href=True)\<close>, in document order\<close>
  "anchor_hrefs (Element t as cs) =
     (case (if t = ''a'' then map_of as ''href'' else None) of
        Some href \<Rightarrow> href # concat (map anchor_hrefs cs)
      | None \<Rightarrow> concat (map anchor_hrefs cs))"
| "anchor_hrefs _ = []"

definition follow :: "env \<Rightarrow> string \<Rightarrow> string \<Rightarrow> string option" where
  \<comment> \<open>what the loop over the anchors does with one \<open>href\<close> on the page \<open>u\<close>: the address it
      crawls next, \<open>None\<close> for a mail address or an external link\<close>
  "follow env u a =
     (let href = before CHR ''#'' a in
      if startswith (lower href) ''mailto:'' then None
      else
        let full = urljoin env u href in
        if is_internal (root_url env) full then Some full else None)"

text \<open>
  \<open>crawl\<close> calls itself for every internal link of the page. The first argument after the
  environment bounds the depth of these calls; \<open>None\<close> is a run that needs more depth than
  it was given. \<open>crawl_links\<close> is the loop over the anchors of one page.
\<close>

fun crawl :: "env \<Rightarrow> nat \<Rightarrow> string \<Rightarrow> state \<Rightarrow> state option"
  and crawl_links :: "env \<Rightarrow> nat \<Rightarrow> string \<Rightarrow> string list \<Rightarrow> state \<Rightarrow> state option"
where
  "crawl env 0 u s = None"
| "crawl env (Suc n) u s =
     (if u \<in> visited s then Some s
      else if \<not> fetch_ok (http_get env u)
      then Some (log [Get_Page u, Error_Fetch u] (s\<lparr>visited := insert u (visited s)\<rparr>))
      else crawl_links env n u
             (concat (map anchor_hrefs (soup env (body (http_get env u)))))
             (save_html_as_pdf env u (body (http_get env u))
                (log [Get_Page u] (s\<lparr>visited := insert u (visited s)\<rparr>))))"
| "crawl_links env n u [] s = Some s"
| "crawl_links env n u (a # rest) s =
     (case follow env u a of
        None \<Rightarrow> crawl_links env n u rest s
      | Some full \<Rightarrow>
          (case crawl env n full s of
             None \<Rightarrow> None
           | Some s' \<Rightarrow> crawl_links env n u rest s'))"

section \<open>The release harvester\<close>

definition looks_like_pdf :: "string \<Rightarrow> bool" where
  "looks_like_pdf chunk = startswith chunk ''%PDF''"

definition resolve :: "env \<Rightarrow> string \<Rightarrow> string option" where
  \<comment> \<open>the download address of an anchor, \<open>None\<close> where the loop says \<open>continue\<close>\<close>
  "resolve env href =
     (if endswith (lower href) ''.pdf'' then Some (urljoin env (build_history env) href)
      else if contains href ''drive.google.com'' then Some (get_drive_direct_link href)
      else None)"

definition harvest_one :: "env \<Rightarrow> string \<Rightarrow> state \<times> nat \<Rightarrow> state \<times> nat" where
  \<comment> \<open>one pass of the loop over the anchors; the number is \<open>count\<close>\<close>
  "harvest_one env href sc =
     (case resolve env href of
        None \<Rightarrow> sc
      | Some pdf_url \<Rightarrow>
          let s = fst sc; count = snd sc; dest = releases_file pdf_url in
          if files s dest \<noteq> None then sc
          else
            (case http_stream env pdf_url of
               None \<Rightarrow> (log [Get_Release pdf_url, Error_Download pdf_url] s, count)
             | Some r \<Rightarrow>
                 if status_code r = 403
                 then (log [Get_Release pdf_url, Skip_Forbidden pdf_url] s, count)
                 else
                   (case first_chunk r of
                      None \<Rightarrow> (log [Get_Release pdf_url, Error_Download pdf_url] s, count)
                    | Some chunk \<Rightarrow>
                        if \<not> looks_like_pdf chunk
                        then (log [Get_Release pdf_url, Skip_Non_PDF pdf_url] s, count)
                        else if complete r
                        then (log [Get_Release pdf_url, Downloaded dest pdf_url]
                                (s\<lparr>files := (files s)(dest \<mapsto> chunk @ remaining r)\<rparr>),
                              count + 1)
                        else (log [Get_Release pdf_url, Error_Download pdf_url]
                                (s\<lparr>files := (files s)(dest \<mapsto> chunk @ remaining r)\<rparr>),
                              count))))"

definition download_release_pdfs :: "env \<Rightarrow> state \<Rightarrow> state" where
  "download_release_pdfs env s =
     (if \<not> fetch_ok (http_get env (build_history env)) then log [Get_Index, Error_Index] s
      else
        let hrefs = concat (map anchor_hrefs (soup env (body (http_get env (build_history env)))));
            sc = fold (harvest_one env) hrefs (log [Get_Index] s, 0)
        in log [Total_Saved (snd sc)] (fst sc))"


section \<open>The text scraper\<close>

text \<open>
  \<open>scrap_wiki.py\<close> keeps the set \<open>seen\<close> and writes one text file per page into
  \<open>OUTPUT_DIR\<close>. Its \<open>START_URL\<close> is the field \<open>start_url\<close> of the environment. It calls
  \<open>requests.get\<close> and \<open>raise_for_status\<close> outside any \<open>try\<close>, so an exception leaves
  \<open>crawl_page\<close> and every call of it that is still open.
\<close>

datatype wiki_event = Crawling string | Wiki_Get string | Saved string

record wiki_state =
  seen :: "string set"
  wiki_files :: "string \<rightharpoonup> string"
  wiki_trace :: "wiki_event list"

datatype outcome =
    Returned wiki_state
  | Uncaught wiki_state

fun state_of :: "outcome \<Rightarrow> wiki_state" where
  "state_of (Returned s) = s"
| "state_of (Uncaught s) = s"

fun uncaught :: "outcome \<Rightarrow> bool" where
  "uncaught (Returned s) = False"
| "uncaught (Uncaught s) = True"

fun find_all :: "(string \<Rightarrow> (string \<times> string) list \<Rightarrow> bool) \<Rightarrow> node \<Rightarrow> node list" where
  \<comment> \<open>the elements that satisfy a test, in document order\<close>
  "find_all P (Element t as cs) =
     (if P t as then [Element t as cs] else []) @ concat (map (find_all P) cs)"
| "find_all P _ = []"

fun strings :: "node \<Rightarrow> string list" where
  "strings (Element t as cs) = concat (map strings cs)"
| "strings (Text x) = [x]"
| "strings (Comment x) = []"

definition strip_ws :: "string \<Rightarrow> string" where
  "strip_ws x = rev (dropWhile is_space (rev (dropWhile is_space x)))"

fun join :: "string \<Rightarrow> string list \<Rightarrow> string" where
  "join sep [] = []"
| "join sep [x] = x"
| "join sep (x # y # ys) = x @ sep @ join sep (y # ys)"

definition get_text :: "node \<Rightarrow> string" where
  \<comment> \<open>\<open>container.get_text("\n\n", strip=True)\<close>\<close>
  "get_text n = join [CHR 0x0A, CHR 0x0A] (filter (\<lambda>x. x \<noteq> []) (map strip_ws (strings n)))"

definition container :: "node list \<Rightarrow> node option" where
  \<comment> \<open>\<open>soup.select_one("div.freebirdFormviewerViewGridRow") or soup.body\<close>\<close>
  "container doc =
     (case concat (map (find_all (\<lambda>t as. t = ''div''
              \<and> has_value as ''class'' ''freebirdFormviewerViewGridRow'')) doc) of
        d # _ \<Rightarrow> Some d
      | [] \<Rightarrow> (case concat (map (find_all (\<lambda>t as. t = ''body'')) doc) of
                 b # _ \<Rightarrow> Some b
               | [] \<Rightarrow> None))"

definition text_file :: "string \<Rightarrow> string" where
  \<comment> \<open>the file name of \<open>save_text\<close>, relative to \<open>OUTPUT_DIR\<close>\<close>
  "text_file u =
     (let p = map (\<lambda>c. if c = CHR ''/'' then CHR ''_'' else c) (strip_char CHR ''/'' (path (urlparse u)))
      in (if p = [] then ''home'' else p) @ ''.txt'')"

definition page_text :: "node list \<Rightarrow> string option" where
  \<comment> \<open>the text \<open>save_text\<close> writes; \<open>None\<close> when there is neither the container nor a body:
      \<open>get_text\<close> is then called on \<open>None\<close> and raises\<close>
  "page_text doc = map_option get_text (container doc)"

definition save_text :: "string \<Rightarrow> node list \<Rightarrow> wiki_state \<Rightarrow> wiki_state option" where
  "save_text u doc s =
     (case page_text doc of
        None \<Rightarrow> None
      | Some text \<Rightarrow> Some (s\<lparr>wiki_files := (wiki_files s)(text_file u \<mapsto> text),
                            wiki_trace := wiki_trace s @ [Saved (text_file u)]\<rparr>))"

fun nav_hrefs :: "bool \<Rightarrow> node \<Rightarrow> string list" where
  \<comment> \<open>\<open>soup.select("nav a[href], div.docs-nav a[href]")\<close>: the anchors with an \<open>href\<close> below
      a \<open>nav\<close> or a \<open>div\<close> of class \<open>docs-nav\<close>; the flag says that such an ancestor was passed\<close>
  "nav_hrefs inside (Element t as cs) =
     (case (if inside \<and> t = ''a'' then map_of as ''href'' else None) of
        Some href \<Rightarrow> [href]
      | None \<Rightarrow> [])
     @ concat (map (nav_hrefs (inside \<or> t = ''nav''
                      \<or> (t = ''div'' \<and> has_value as ''class'' ''docs-nav''))) cs)"
| "nav_hrefs inside _ = []"

definition nav_target :: "env \<Rightarrow> string \<Rightarrow> string \<Rightarrow> string" where
  \<comment> \<open>\<open>urljoin(url, a["href"].split("#")[0])\<close>\<close>
  "nav_target env u a = urljoin env u (before CHR ''#'' a)"

fun crawl_page :: "env \<Rightarrow> nat \<Rightarrow> string \<Rightarrow> wiki_state \<Rightarrow> outcome option"
  and crawl_nav :: "env \<Rightarrow> nat \<Rightarrow> string \<Rightarrow> string list \<Rightarrow> wiki_state \<Rightarrow> outcome option"
where
  "crawl_page env 0 u s = None"
| "crawl_page env (Suc n) u s =
     (if u \<in> seen s then Some (Returned s)
      else if \<not> fetch_ok (http_get env u)
      then Some (Uncaught (s\<lparr>seen := insert u (seen s),
                              wiki_trace := wiki_trace s @ [Crawling u, Wiki_Get u]\<rparr>))
      else
        (case save_text u (soup env (body (http_get env u)))
                (s\<lparr>seen := insert u (seen s),
                   wiki_trace := wiki_trace s @ [Crawling u, Wiki_Get u]\<rparr>) of
           None \<Rightarrow> Some (Uncaught (s\<lparr>seen := insert u (seen s),
                                     wiki_trace := wiki_trace s @ [Crawling u, Wiki_Get u]\<rparr>))
         | Some s2 \<Rightarrow>
             crawl_nav env n u
               (concat (map (nav_hrefs False) (soup env (body (http_get env u))))) s2))"
| "crawl_nav env n u [] s = Some (Returned s)"
| "crawl_nav env n u (a # rest) s =
     (if wiki_is_internal (start_url env) (nav_target env u a) \<and> nav_target env u a \<notin> seen s
      then (case crawl_page env n (nav_target env u a) s of
              None \<Rightarrow> None
            | Some (Uncaught s') \<Rightarrow> Some (Uncaught s')
            | Some (Returned s') \<Rightarrow> crawl_nav env n u rest s')
      else crawl_nav env n u rest s)"


text \<open>
  What a crawl leaves alone, for a page \<open>u\<close>: every file that exists keeps its content, and
  when the file of \<open>u\<close> exists \<open>u\<close> is not rendered again.
\<close>

definition keeps :: "string \<Rightarrow> state \<Rightarrow> state \<Rightarrow> bool" where
  "keeps u s s' =
     ((\<forall>p b. files s p = Some b \<longrightarrow> files s' p = Some b)
      \<and> (files s (pages_file u) \<noteq> None \<longrightarrow>
           count_list (trace s') (Create_PDF u) = count_list (trace s) (Create_PDF u)))"

text \<open>
  What the harvester does to the files, from a state \<open>s\<close> to a state \<open>s'\<close>: every file
  that exists keeps its content, and a file that is new begins with the signature.
\<close>

definition adds_pdfs_only :: "state \<Rightarrow> state \<Rightarrow> bool" where
  "adds_pdfs_only s s' =
     ((\<forall>p x. files s p = Some x \<longrightarrow> files s' p = Some x)
      \<and> (\<forall>p b. files s' p = Some b \<longrightarrow> files s p = Some b \<or> looks_like_pdf b))"

definition file_at :: "string \<Rightarrow> state \<Rightarrow> string option" where
  "file_at p s = files s p"

section \<open>A small site\<close>

text \<open>
  An environment for evaluating the two crawlers and the harvester: the site
  \<open>https://example.com\<close>, whose home page links to \<open>/a\<close>, \<open>/b\<close>, a mail address and another
  host; \<open>/a\<close> links back to the home page, to \<open>/c#top\<close> and to \<open>/gone\<close>, which answers 404;
  \<open>/c\<close> does not render. Its release index links to a PDF, to a share link of the cloud
  drive that answers with a login page, and to a page that is neither. The parser is a
  table of these pages, the serialiser writes a tree back in the plainest way, and
  \<open>urljoin\<close> is right for the absolute and root-relative references the site uses.
\<close>

definition demo_root :: string where
  "demo_root = ''https://example.com/''"

definition demo_get :: "string \<Rightarrow> response" where
  "demo_get u =
     (if u = ''https://example.com/'' then Response 200 (Some ''text/html'') ''home''
      else if u = ''https://example.com/a'' then Response 200 (Some ''text/html'') ''page a''
      else if u = ''https://example.com/b'' then Response 200 (Some ''text/html'') ''page b''
      else if u = ''https://example.com/c'' then Response 200 (Some ''text/html'') ''page c''
      else if u = ''https://example.com/gone'' then Response 404 None ''not found''
      else if u = ''https://example.com/build-history'' then Response 200 None ''index''
      else if u = ''http://example.com/x.png'' then Response 200 (Some ''image/png'') ''ab''
      else if u = ''http://example.com/gone.png'' then Response 404 None ''no''
      else Raised)"

definition demo_soup :: "string \<Rightarrow> node list" where
  "demo_soup text =
     (if text = ''home'' then
        [Element ''body'' []
           [Element ''nav'' []
              [Element ''a'' [(''href'', ''/a'')] [Text ''A''],
               Element ''a'' [(''href'', ''/b'')] [Text ''B''],
               Element ''a'' [(''href'', ''mailto:x@example.com'')] [],
               Element ''a'' [(''href'', ''https://other.example.com/x'')] []]]]
      else if text = ''page a'' then
        [Element ''body'' []
           [Element ''nav'' []
              [Element ''a'' [(''href'', ''/'')] [],
               Element ''a'' [(''href'', ''/c#top'')] [],
               Element ''a'' [(''href'', ''/gone'')] []]]]
      else if text = ''page b'' then
        [Element ''body'' [] [Element ''img'' [(''src'', ''http://example.com/x.png'')] []]]
      else if text = ''page c'' then
        [Element ''body'' [] [Element ''blink'' [] [Text ''c'']]]
      else if text = ''index'' then
        [Element ''body'' []
           [Element ''a'' [(''href'', ''/files/notes.PDF'')] [],
            Element ''a'' [(''href'', ''https://drive.google.com/file/d/ABC123/view'')] [],
            Element ''a'' [(''href'', ''/about'')] []]]
      else [Text text])"

fun demo_str :: "node \<Rightarrow> string" where
  "demo_str (Element t as cs) =
     ''<'' @ t @ concat (map (\<lambda>kv. '' '' @ fst kv @ ''='' @ snd kv) as) @ ''>''
       @ concat (map demo_str cs) @ ''</'' @ t @ ''>''"
| "demo_str (Text x) = x"
| "demo_str (Comment x) = ''<!--'' @ x @ ''-->''"

definition demo_create_pdf :: "string \<Rightarrow> nat \<times> string" where
  "demo_create_pdf html = (if contains html ''<blink>'' then (1, []) else (0, ''%PDF-1.4 '' @ html))"

definition demo_urljoin :: "string \<Rightarrow> string \<Rightarrow> string" where
  "demo_urljoin base href =
     (if href = [] then base
      else if startswith href ''/'' then ''https://example.com'' @ href
      else href)"

definition demo_stream :: "string \<Rightarrow> stream option" where
  "demo_stream u =
     (if u = ''https://example.com/files/notes.PDF''
      then Some \<lparr>status_code = 200, first_chunk = Some ''%PDF-1.7 notes'', remaining = '' more'',
                 complete = True\<rparr>
      else if u = ''https://drive.google.com/uc?export=download&id=ABC123''
      then Some \<lparr>status_code = 200, first_chunk = Some ''<html>login</html>'', remaining = [],
                 complete = True\<rparr>
      else None)"

definition demo_env :: env where
  "demo_env =
     \<lparr>root_url = ''https://example.com/'', build_history = ''https://example.com/build-history'',
      start_url = ''https://example.com/'', http_get = demo_get, http_stream = demo_stream,
      soup = demo_soup, soup_str = (\<lambda>ns. concat (map demo_str ns)),
      create_pdf = demo_create_pdf, urljoin = demo_urljoin\<rparr>"

definition init :: state where
  \<comment> \<open>the state at the start of a run with an empty output directory\<close>
  "init = \<lparr>visited = {}, files = Map.empty, trace = []\<rparr>"

definition demo_prior :: state where
  \<comment> \<open>the start of a second run: the file of \<open>/b\<close> is there from the first\<close>
  "demo_prior = \<lparr>visited = {}, files = [pages_file ''https://example.com/b'' \<mapsto> ''%PDF old''],
     trace = []\<rparr>"

definition wiki_init :: wiki_state where
  "wiki_init = \<lparr>seen = {}, wiki_files = Map.empty, wiki_trace = []\<rparr>"




section \<open>Reading a trace\<close>

fun page_get :: "event \<Rightarrow> string list" where
  "page_get (Get_Page u) = [u]"
| "page_get _ = []"

definition page_gets :: "event list \<Rightarrow> string list" where
  \<comment> \<open>the pages \<open>crawl\<close> requested, in order\<close>
  "page_gets es = concat (map page_get es)"

fun wiki_get :: "wiki_event \<Rightarrow> string list" where
  "wiki_get (Wiki_Get u) = [u]"
| "wiki_get _ = []"

definition wiki_gets :: "wiki_event list \<Rightarrow> string list" where
  \<comment> \<open>the pages \<open>crawl_page\<close> requested, in order\<close>
  "wiki_gets es = concat (map wiki_get es)"




section \<open>Properties of the link classifier\<close>

lemma netloc_other:
  "netloc (urlparse ''https://other.example.com/x'') = ''other.example.com''"
  by code_simp

lemma netloc_relative: "netloc (urlparse ''/relative/path'') = []"
  by code_simp

lemma netloc_example_home: "netloc (urlparse ''https://example.com/home'') = ''example.com''"
  by code_simp

text \<open>
  C2, as the two predicates behave. With a root whose network location is \<open>example.com\<close>,
  the exact-match predicate of \<open>scrap_pdf.py\<close> rejects \<open>https://other.example.com/x\<close>, the
  \<open>endswith\<close> predicate of \<open>scrap_wiki.py\<close> accepts it (the subdomain's name ends with the
  root's), and both accept \<open>/relative/path\<close>, which has no network location.
\<close>

theorem is_internal_example_hosts:
  assumes "netloc (urlparse root) = ''example.com''"
  shows "\<not> is_internal root ''https://other.example.com/x''
       \<and> is_internal root ''/relative/path''
       \<and> wiki_is_internal root ''https://other.example.com/x''
       \<and> wiki_is_internal root ''/relative/path''"
proof -
  have "suffix ''example.com'' ''other.example.com''"
    by code_simp
  then show ?thesis
    using assms
    by (simp add: is_internal_def wiki_is_internal_def endswith_def netloc_other
        netloc_relative)
qed

theorem is_internal_example_hosts_witness:
  "netloc (urlparse ''https://example.com/home'') = ''example.com''
   \<and> \<not> is_internal ''https://example.com/home'' ''https://other.example.com/x''
   \<and> is_internal ''https://example.com/home'' ''/relative/path''
   \<and> wiki_is_internal ''https://example.com/home'' ''https://other.example.com/x''
   \<and> wiki_is_internal ''https://example.com/home'' ''/relative/path''"
  using is_internal_example_hosts [OF netloc_example_home] netloc_example_home
  by simp

text \<open>
  C2 as stated fails for the \<open>endswith\<close> predicate: with the root
  \<open>https://example.com/home\<close> it classifies \<open>https://other.example.com/x\<close> as internal.
\<close>

theorem wiki_is_internal_subdomain_counterexample:
  "netloc (urlparse ''https://example.com/home'') = ''example.com''
   \<and> wiki_is_internal ''https://example.com/home'' ''https://other.example.com/x''"
  by code_simp

section \<open>Properties of the share-link rewriting\<close>











section \<open>Properties of the file names\<close>

lemma collapse_runs_non_alnum:
  "\<not> alnum c \<Longrightarrow> collapse_runs (c # cs) = CHR ''_'' # collapse_runs (dropWhile (\<lambda>x. \<not> alnum x) cs)"
  by (induction cs arbitrary: c) auto

lemma re_sub_is_collapse: "re_sub_non_alnum s = collapse_runs s"
proof (induction s rule: re_sub_non_alnum.induct)
  case 1
  show ?case by simp
next
  case (2 c cs)
  show ?case
  proof (cases "alnum c")
    case True
    with 2 show ?thesis by (cases cs) simp_all
  next
    case False
    with 2 show ?thesis by (simp add: collapse_runs_non_alnum)
  qed
qed

lemma length_hex32: "length (hex32 w) = 8"
  by (simp add: hex32_def)

lemma hex_index: "hex_char (hex_digits ! nat (x mod 16))" for x :: int
proof -
  have "0 \<le> x mod 16" and "x mod 16 < 16"
    by simp_all
  then have "nat (x mod 16) < length hex_digits"
    by (simp add: hex_digits_def)
  then show ?thesis
    unfolding hex_char_def by (rule nth_mem)
qed

lemma hex32_chars: "list_all hex_char (hex32 w)"
  by (simp add: hex32_def hex_index)

lemma digest_shape:
  "length (take 8 (hexdigest u)) = 8 \<and> list_all hex_char (take 8 (hexdigest u))"
  by (cases "sha1 u") (simp add: hexdigest_def length_hex32 hex32_chars)

lemma sha1_abc: "hexdigest ''abc'' = ''a9993e364706816aba3e25717850c26c9cd0d89d''"
  by code_simp

lemma sanitize_example_ab: "sanitize ''https://example.com/a/b'' ''pdf'' = ''a_b_6bc63113.pdf''"
  by code_simp

text \<open>
  C7, as the code names a file. \<open>sanitize\<close> is a function of the URL and the extension
  alone. Its result is the URL's path without its leading and trailing slashes, each run
  of non-alphanumeric characters collapsed to one underscore (\<open>page\<close> when nothing is left
  of the path), then an underscore, the first eight characters of the hexadecimal SHA-1
  digest of the URL, which are eight hexadecimal digits, a dot and the extension.
\<close>

theorem sanitize_shape:
  "sanitize u ext =
     (let stem = collapse_runs (strip_char CHR ''/'' (path (urlparse u)))
      in (if stem = [] then ''page'' else stem) @ ''_'' @ take 8 (hexdigest u) @ ''.'' @ ext)
   \<and> length (take 8 (hexdigest u)) = 8
   \<and> list_all hex_char (take 8 (hexdigest u))"
  using digest_shape [of u] by (simp add: sanitize_def re_sub_is_collapse Let_def)

theorem sanitize_shape_witness:
  "sanitize ''https://example.com/a/b'' ''pdf'' = ''a_b_6bc63113.pdf''
   \<and> collapse_runs (strip_char CHR ''/'' (path (urlparse ''https://example.com/a/b''))) = ''a_b''
   \<and> take 8 (hexdigest ''https://example.com/a/b'') = ''6bc63113''"
proof -
  have stem: "collapse_runs (strip_char CHR ''/'' (path (urlparse ''https://example.com/a/b''))) = ''a_b''"
    by code_simp
  have "sanitize ''https://example.com/a/b'' ''pdf''
      = ''a_b'' @ ''_'' @ take 8 (hexdigest ''https://example.com/a/b'') @ ''.'' @ ''pdf''"
    using sanitize_shape [of "''https://example.com/a/b''" "''pdf''"] stem by simp
  then have "take 8 (hexdigest ''https://example.com/a/b'') = ''6bc63113''"
    by (simp add: sanitize_example_ab)
  then show ?thesis
    using stem sanitize_example_ab by simp
qed

text \<open>
  C7 as stated fails: for \<open>https://example.com/a/b\<close> the path is \<open>/a/b\<close>, whose runs
  collapse to \<open>_a_b\<close>, while \<open>sanitize\<close> strips the slash first and appends the extension.
\<close>

theorem sanitize_not_spec_filename_counterexample:
  "sanitize ''https://example.com/a/b'' ''pdf'' = ''a_b_6bc63113.pdf''
   \<and> spec_filename ''https://example.com/a/b'' = ''_a_b_6bc63113''
   \<and> sanitize ''https://example.com/a/b'' ''pdf'' \<noteq> spec_filename ''https://example.com/a/b''"
  by code_simp

section \<open>Properties of the cleaning\<close>











section \<open>Invariants of the crawlers\<close>

lemma log_simps [simp]:
  "visited (log es s) = visited s" "files (log es s) = files s" "trace (log es s) = trace s @ es"
  by (simp_all add: log_def)

lemma page_gets_append [simp]: "page_gets (xs @ ys) = page_gets xs @ page_gets ys"
  by (simp add: page_gets_def)

lemma page_gets_images [simp]: "page_gets (map Get_Image xs) = []"
  by (induction xs) (simp_all add: page_gets_def)

lemma page_gets_Nil [simp]: "page_gets [] = []"
  by (simp add: page_gets_def)

lemma page_gets_Cons [simp]: "page_gets (e # es) = page_get e @ page_gets es"
  by (simp add: page_gets_def)

lemma save_visited [simp]: "visited (save_html_as_pdf env u html s) = visited s"
  by (simp add: save_html_as_pdf_def Let_def)

lemma save_page_gets [simp]:
  "page_gets (trace (save_html_as_pdf env u html s)) = page_gets (trace s)"
  by (simp add: save_html_as_pdf_def Let_def)



lemma wiki_gets_Nil [simp]: "wiki_gets [] = []"
  by (simp add: wiki_gets_def)

lemma wiki_gets_Cons [simp]: "wiki_gets (e # es) = wiki_get e @ wiki_gets es"
  by (simp add: wiki_gets_def)

lemma wiki_gets_append [simp]: "wiki_gets (xs @ ys) = wiki_gets xs @ wiki_gets ys"
  by (simp add: wiki_gets_def)




lemma keeps_refl: "keeps u s s"
  by (simp add: keeps_def)

lemma keeps_trans: "keeps u s s1 \<Longrightarrow> keeps u s1 s2 \<Longrightarrow> keeps u s s2"
  by (auto simp: keeps_def)

lemma count_images [simp]: "count_list (map Get_Image xs) (Create_PDF u) = 0"
  by (induction xs) simp_all

lemma save_keeps: "keeps u s (save_html_as_pdf env v html s)"
  by (auto simp: keeps_def save_html_as_pdf_def Let_def)

lemma enter_keeps: "keeps u s (log [Get_Page v] (s\<lparr>visited := insert v (visited s)\<rparr>))"
  by (simp add: keeps_def)

lemma fail_keeps: "keeps u s (log [Get_Page v, Error_Fetch v] (s\<lparr>visited := insert v (visited s)\<rparr>))"
  by (simp add: keeps_def)

lemma crawl_keeps:
  "(crawl env n v s = Some s' \<longrightarrow> keeps u s s')"
  "(crawl_links env n v as s = Some s' \<longrightarrow> keeps u s s')"
proof (induction env n v s and env n v as s arbitrary: s' and s' rule: crawl_crawl_links.induct)
  case (1 env v s)
  show ?case by simp
next
  case (2 env n v s)
  let ?s1 = "save_html_as_pdf env v (body (http_get env v))
                (log [Get_Page v] (s\<lparr>visited := insert v (visited s)\<rparr>))"
  show ?case
  proof (intro impI)
    assume run: "crawl env (Suc n) v s = Some s'"
    show "keeps u s s'"
    proof (cases "v \<in> visited s")
      case True
      with run show ?thesis by (simp add: keeps_refl)
    next
      case new: False
      show ?thesis
      proof (cases "fetch_ok (http_get env v)")
        case False
        with run new show ?thesis using fail_keeps by auto
      next
        case True
        have "keeps u s ?s1"
          using enter_keeps save_keeps keeps_trans by blast
        moreover have "keeps u ?s1 s'"
          using 2 new True run by simp
        ultimately show ?thesis
          by (rule keeps_trans)
      qed
    qed
  qed
next
  case (3 env n v s)
  show ?case by (simp add: keeps_refl)
next
  case (4 env n v a rest s)
  show ?case
  proof (intro impI)
    assume run: "crawl_links env n v (a # rest) s = Some s'"
    show "keeps u s s'"
    proof (cases "follow env v a")
      case None
      with run 4 show ?thesis by simp
    next
      case (Some full)
      with run obtain s1 where s1: "crawl env n full s = Some s1"
        and rest: "crawl_links env n v rest s1 = Some s'"
        by (auto split: option.splits)
      have "keeps u s s1"
        using 4(2) Some s1 by blast
      moreover have "keeps u s1 s'"
        using 4(3) Some s1 rest by blast
      ultimately show ?thesis
        by (rule keeps_trans)
    qed
  qed
qed

section \<open>The small site, evaluated\<close>


lemma demo_fetch:
  "fetch_ok (http_get demo_env ''https://example.com/'')"
  "fetch_ok (http_get demo_env ''https://example.com/a'')"
  "fetch_ok (http_get demo_env ''https://example.com/b'')"
  "fetch_ok (http_get demo_env ''https://example.com/c'')"
  "\<not> fetch_ok (http_get demo_env ''https://example.com/gone'')"
  "body (http_get demo_env ''https://example.com/'') = ''home''"
  "body (http_get demo_env ''https://example.com/a'') = ''page a''"
  "body (http_get demo_env ''https://example.com/b'') = ''page b''"
  "body (http_get demo_env ''https://example.com/c'') = ''page c''"
  by code_simp+

lemma demo_anchors:
  "concat (map anchor_hrefs (soup demo_env ''home''))
     = [''/a'', ''/b'', ''mailto:x@example.com'', ''https://other.example.com/x'']"
  "concat (map anchor_hrefs (soup demo_env ''page a'')) = [''/'', ''/c#top'', ''/gone'']"
  "concat (map anchor_hrefs (soup demo_env ''page b'')) = []"
  "concat (map anchor_hrefs (soup demo_env ''page c'')) = []"
  by code_simp+





lemma demo_wiki:
  "page_text (soup demo_env ''home'') = Some (''A'' @ [CHR 0x0A, CHR 0x0A] @ ''B'')"
  "page_text (soup demo_env ''page a'') = Some []"
  "page_text (soup demo_env ''page c'') = Some ''c''"
  "concat (map (nav_hrefs False) (soup demo_env ''home''))
     = [''/a'', ''/b'', ''mailto:x@example.com'', ''https://other.example.com/x'']"
  "concat (map (nav_hrefs False) (soup demo_env ''page a'')) = [''/'', ''/c#top'', ''/gone'']"
  "concat (map (nav_hrefs False) (soup demo_env ''page c'')) = []"
  "nav_target demo_env ''https://example.com/'' ''/a'' = ''https://example.com/a''"
  "nav_target demo_env ''https://example.com/a'' ''/'' = ''https://example.com/''"
  "nav_target demo_env ''https://example.com/a'' ''/c#top'' = ''https://example.com/c''"
  "nav_target demo_env ''https://example.com/a'' ''/gone'' = ''https://example.com/gone''"
  "wiki_is_internal (start_url demo_env) ''https://example.com/a''"
  "wiki_is_internal (start_url demo_env) ''https://example.com/''"
  "wiki_is_internal (start_url demo_env) ''https://example.com/c''"
  "wiki_is_internal (start_url demo_env) ''https://example.com/gone''"
  by code_simp+

lemma demo_crawl_page:
  "map_option uncaught (crawl_page demo_env 3 demo_root wiki_init) = Some True"
  "map_option (wiki_gets \<circ> wiki_trace \<circ> state_of) (crawl_page demo_env 3 demo_root wiki_init)
     = Some [''https://example.com/'', ''https://example.com/a'', ''https://example.com/c'',
         ''https://example.com/gone'']"
  "map_option (seen \<circ> state_of) (crawl_page demo_env 3 demo_root wiki_init)
     = Some {''https://example.com/'', ''https://example.com/a'', ''https://example.com/c'',
         ''https://example.com/gone''}"
  by (auto simp add: numeral_3_eq_3 demo_root_def wiki_init_def save_text_def
      demo_fetch demo_wiki)

section \<open>Properties of the crawlers\<close>



text \<open>
  C3, as the code skips work. When the file of a page exists, \<open>save_html_as_pdf\<close> changes
  nothing: it requests no image and renders nothing. \<open>crawl\<close> still requests the page
  itself, once, to find its links, and goes on to them with the files untouched. Through
  a whole run every file that exists keeps its content and the page is not rendered.
\<close>

theorem existing_file_skips_conversion:
  "(files s (pages_file u) \<noteq> None \<longrightarrow> save_html_as_pdf env u html s = s)
   \<and> (files s (pages_file u) \<noteq> None \<and> u \<notin> visited s \<and> fetch_ok (http_get env u) \<longrightarrow>
        crawl env (Suc n) u s =
          crawl_links env n u (concat (map anchor_hrefs (soup env (body (http_get env u)))))
            (log [Get_Page u] (s\<lparr>visited := insert u (visited s)\<rparr>)))
   \<and> (crawl env n r s = Some s' \<longrightarrow> keeps u s s')"
proof (intro conjI impI)
  assume "files s (pages_file u) \<noteq> None"
  then show "save_html_as_pdf env u html s = s"
    by (simp add: save_html_as_pdf_def)
next
  assume h: "files s (pages_file u) \<noteq> None \<and> u \<notin> visited s \<and> fetch_ok (http_get env u)"
  then have "save_html_as_pdf env u (body (http_get env u))
      (log [Get_Page u] (s\<lparr>visited := insert u (visited s)\<rparr>))
      = log [Get_Page u] (s\<lparr>visited := insert u (visited s)\<rparr>)"
    by (simp add: save_html_as_pdf_def)
  then show "crawl env (Suc n) u s =
      crawl_links env n u (concat (map anchor_hrefs (soup env (body (http_get env u)))))
        (log [Get_Page u] (s\<lparr>visited := insert u (visited s)\<rparr>))"
    using h by simp
next
  assume "crawl env n r s = Some s'"
  then show "keeps u s s'"
    using crawl_keeps(1) by blast
qed

lemma demo_rerun:
  "crawl demo_env 1 ''https://example.com/b'' demo_prior =
     Some (log [Get_Page ''https://example.com/b'']
       (demo_prior\<lparr>visited := insert ''https://example.com/b'' (visited demo_prior)\<rparr>))"
  by (simp add: demo_prior_def save_html_as_pdf_def demo_fetch demo_anchors)

theorem existing_file_skips_conversion_witness:
  "files demo_prior (pages_file ''https://example.com/b'') = Some ''%PDF old''
   \<and> save_html_as_pdf demo_env ''https://example.com/b'' ''page b'' demo_prior = demo_prior
   \<and> map_option trace (crawl demo_env 1 ''https://example.com/b'' demo_prior)
       = Some [Get_Page ''https://example.com/b'']
   \<and> map_option (file_at (pages_file ''https://example.com/b''))
        (crawl demo_env 1 ''https://example.com/b'' demo_prior) = Some (Some ''%PDF old'')"
proof -
  have old: "files demo_prior (pages_file ''https://example.com/b'') = Some ''%PDF old''"
    by (simp add: demo_prior_def)
  have same: "save_html_as_pdf demo_env ''https://example.com/b'' ''page b'' demo_prior = demo_prior"
    using existing_file_skips_conversion [of demo_prior "''https://example.com/b''"] old
    by simp
  have "map_option trace (crawl demo_env 1 ''https://example.com/b'' demo_prior)
       = Some [Get_Page ''https://example.com/b'']"
    unfolding demo_rerun by (simp add: demo_prior_def)
  moreover have "map_option (file_at (pages_file ''https://example.com/b''))
        (crawl demo_env 1 ''https://example.com/b'' demo_prior) = Some (Some ''%PDF old'')"
    unfolding demo_rerun by (simp add: demo_prior_def file_at_def)
  ultimately show ?thesis
    using old same by blast
qed

text \<open>
  C3 as stated fails: started with the file of \<open>/b\<close> in place, \<open>crawl\<close> of \<open>/b\<close> requests
  the page.
\<close>

theorem existing_file_still_fetched_counterexample:
  "files demo_prior (pages_file ''https://example.com/b'') \<noteq> None
   \<and> map_option (page_gets \<circ> trace) (crawl demo_env 1 ''https://example.com/b'' demo_prior)
       = Some [''https://example.com/b'']"
proof -
  have "files demo_prior (pages_file ''https://example.com/b'') \<noteq> None"
    by (simp add: demo_prior_def)
  moreover have "map_option (page_gets \<circ> trace) (crawl demo_env 1 ''https://example.com/b'' demo_prior)
       = Some [''https://example.com/b'']"
    unfolding demo_rerun by (simp add: demo_prior_def)
  ultimately show ?thesis
    by blast
qed

text \<open>
  C4, as the two crawlers treat a failed request (\<open>session.get\<close> raises, or the status is
  between 400 and 599 and \<open>raise_for_status\<close> raises). \<open>crawl\<close> marks the page visited,
  prints the error and returns, having followed no link of it, and the loop that called
  it goes on with the next anchor. \<open>crawl_page\<close> has no handler: the exception leaves it,
  and leaves the loop that called it, so the anchors that remain are not visited.
\<close>

theorem fetch_failure_is_local:
  "(\<not> fetch_ok (http_get env u) \<and> u \<notin> visited s \<longrightarrow>
      crawl env (Suc n) u s
        = Some (log [Get_Page u, Error_Fetch u] (s\<lparr>visited := insert u (visited s)\<rparr>))
      \<and> (follow env v a = Some u \<longrightarrow>
           crawl_links env (Suc n) v (a # rest) s
             = crawl_links env (Suc n) v rest
                 (log [Get_Page u, Error_Fetch u] (s\<lparr>visited := insert u (visited s)\<rparr>))))
   \<and> (\<not> fetch_ok (http_get env u) \<and> u \<notin> seen w \<longrightarrow>
      crawl_page env (Suc n) u w
        = Some (Uncaught (w\<lparr>seen := insert u (seen w),
                             wiki_trace := wiki_trace w @ [Crawling u, Wiki_Get u]\<rparr>))
      \<and> (nav_target env v a = u \<and> wiki_is_internal (start_url env) u \<longrightarrow>
           crawl_nav env (Suc n) v (a # rest) w
             = Some (Uncaught (w\<lparr>seen := insert u (seen w),
                                  wiki_trace := wiki_trace w @ [Crawling u, Wiki_Get u]\<rparr>))))"
  by simp

theorem fetch_failure_is_local_witness:
  "\<not> fetch_ok (http_get demo_env ''https://example.com/gone'')
   \<and> crawl demo_env 1 ''https://example.com/gone'' init
       = Some (log [Get_Page ''https://example.com/gone'', Error_Fetch ''https://example.com/gone'']
           (init\<lparr>visited := insert ''https://example.com/gone'' (visited init)\<rparr>))
   \<and> crawl_page demo_env 1 ''https://example.com/gone'' wiki_init
       = Some (Uncaught (wiki_init\<lparr>seen := insert ''https://example.com/gone'' (seen wiki_init),
            wiki_trace := wiki_trace wiki_init
              @ [Crawling ''https://example.com/gone'', Wiki_Get ''https://example.com/gone'']\<rparr>))"
proof -
  have "''https://example.com/gone'' \<notin> visited init" "''https://example.com/gone'' \<notin> seen wiki_init"
    by (simp_all add: init_def wiki_init_def)
  then show ?thesis
    using fetch_failure_is_local [of demo_env "''https://example.com/gone''" init 0 _ _ _ wiki_init]
      demo_fetch(5)
    by simp
qed

text \<open>
  C4 as stated fails for \<open>crawl_page\<close>: on the small site the request for \<open>/gone\<close> ends
  the run with an exception, and \<open>/b\<close>, which the home page links to, is never visited.
\<close>

theorem crawl_page_failure_is_fatal_counterexample:
  "map_option uncaught (crawl_page demo_env 3 demo_root wiki_init) = Some True
   \<and> map_option (seen \<circ> state_of) (crawl_page demo_env 3 demo_root wiki_init)
     = Some {''https://example.com/'', ''https://example.com/a'', ''https://example.com/c'',
         ''https://example.com/gone''}"
  using demo_crawl_page(1) demo_crawl_page(3) by simp



section \<open>Properties of the harvester\<close>

lemma adds_pdfs_only_refl: "adds_pdfs_only s s"
  by (simp add: adds_pdfs_only_def)

lemma adds_pdfs_only_trans:
  "adds_pdfs_only s s1 \<Longrightarrow> adds_pdfs_only s1 s2 \<Longrightarrow> adds_pdfs_only s s2"
  unfolding adds_pdfs_only_def by blast

lemma adds_pdfs_only_log: "adds_pdfs_only s (log es s)"
  by (simp add: adds_pdfs_only_def)

lemma looks_like_pdf_append: "looks_like_pdf chunk \<Longrightarrow> looks_like_pdf (chunk @ tail)"
  by (simp add: looks_like_pdf_def startswith_def prefix_prefix)

lemma adds_pdfs_only_write:
  "files s dest = None \<Longrightarrow> looks_like_pdf b \<Longrightarrow>
   adds_pdfs_only s (log es (s\<lparr>files := (files s)(dest \<mapsto> b)\<rparr>))"
  by (auto simp: adds_pdfs_only_def)

lemma harvest_one_adds: "adds_pdfs_only (fst sc) (fst (harvest_one env href sc))"
proof (cases "resolve env href")
  case None
  then show ?thesis
    by (simp add: harvest_one_def adds_pdfs_only_refl)
next
  case (Some pdf_url)
  show ?thesis
  proof (cases "files (fst sc) (releases_file pdf_url)")
    case exists: (Some b)
    with Some show ?thesis
      by (simp add: harvest_one_def adds_pdfs_only_refl)
  next
    case None
    with Some show ?thesis
      by (auto simp: harvest_one_def Let_def adds_pdfs_only_log adds_pdfs_only_write
          looks_like_pdf_append split: option.splits)
  qed
qed

lemma harvest_adds: "adds_pdfs_only (fst sc) (fst (fold (harvest_one env) hrefs sc))"
proof (induction hrefs arbitrary: sc)
  case Nil
  show ?case by (simp add: adds_pdfs_only_refl)
next
  case (Cons href hrefs)
  have "adds_pdfs_only (fst sc) (fst (harvest_one env href sc))"
    by (rule harvest_one_adds)
  moreover have "adds_pdfs_only (fst (harvest_one env href sc))
      (fst (fold (harvest_one env) hrefs (harvest_one env href sc)))"
    by (rule Cons.IH)
  ultimately show ?case
    by (simp add: adds_pdfs_only_trans)
qed

lemma download_adds: "adds_pdfs_only s (download_release_pdfs env s)"
proof (cases "fetch_ok (http_get env (build_history env))")
  case False
  then show ?thesis
    by (simp add: download_release_pdfs_def adds_pdfs_only_log)
next
  case True
  let ?hrefs = "concat (map anchor_hrefs (soup env (body (http_get env (build_history env)))))"
  let ?sc = "fold (harvest_one env) ?hrefs (log [Get_Index] s, 0)"
  have "adds_pdfs_only s (log [Get_Index] s)"
    by (rule adds_pdfs_only_log)
  moreover have "adds_pdfs_only (log [Get_Index] s) (fst ?sc)"
    using harvest_adds [of "(log [Get_Index] s, 0)" env ?hrefs] by simp
  moreover have "adds_pdfs_only (fst ?sc) (log [Total_Saved (snd ?sc)] (fst ?sc))"
    by (rule adds_pdfs_only_log)
  ultimately have "adds_pdfs_only s (log [Total_Saved (snd ?sc)] (fst ?sc))"
    using adds_pdfs_only_trans by blast
  then show ?thesis
    using True by (simp add: download_release_pdfs_def Let_def)
qed

text \<open>
  C5. When the address of an anchor has no file yet, its response is not a 403 and its
  first chunk does not begin with \<open>%PDF\<close>, the pass of the loop leaves the files and the
  count as they are and prints that it skips the address. The chunk
  \<open><html>login</html>\<close> does not begin with \<open>%PDF\<close>. Over a whole harvest every file that
  existed keeps its content, and every new file begins with \<open>%PDF\<close>.
\<close>

theorem non_pdf_download_is_skipped:
  "(resolve env href = Some pdf_url \<and> files s (releases_file pdf_url) = None
      \<and> http_stream env pdf_url = Some r \<and> status_code r \<noteq> 403
      \<and> first_chunk r = Some chunk \<and> \<not> looks_like_pdf chunk \<longrightarrow>
      harvest_one env href (s, count)
        = (log [Get_Release pdf_url, Skip_Non_PDF pdf_url] s, count))
   \<and> \<not> looks_like_pdf ''<html>login</html>''
   \<and> adds_pdfs_only s (download_release_pdfs env s)"
proof (intro conjI impI)
  assume "resolve env href = Some pdf_url \<and> files s (releases_file pdf_url) = None
      \<and> http_stream env pdf_url = Some r \<and> status_code r \<noteq> 403
      \<and> first_chunk r = Some chunk \<and> \<not> looks_like_pdf chunk"
  then show "harvest_one env href (s, count)
      = (log [Get_Release pdf_url, Skip_Non_PDF pdf_url] s, count)"
    by (simp add: harvest_one_def)
next
  show "\<not> looks_like_pdf ''<html>login</html>''"
    by (simp add: looks_like_pdf_def startswith_def)
next
  show "adds_pdfs_only s (download_release_pdfs env s)"
    by (rule download_adds)
qed

lemma demo_releases_files:
  "releases_file ''https://example.com/files/notes.PDF'' = ''releases/files_notes_PDF_3a4f7eb1.pdf''"
  "releases_file ''https://drive.google.com/uc?export=download&id=ABC123''
     = ''releases/uc_c35ef756.pdf''"
  by code_simp+

lemma demo_index:
  "fetch_ok (http_get demo_env (build_history demo_env))"
  "concat (map anchor_hrefs (soup demo_env (body (http_get demo_env (build_history demo_env)))))
     = [''/files/notes.PDF'', ''https://drive.google.com/file/d/ABC123/view'', ''/about'']"
  "resolve demo_env ''/files/notes.PDF'' = Some ''https://example.com/files/notes.PDF''"
  "resolve demo_env ''https://drive.google.com/file/d/ABC123/view''
     = Some ''https://drive.google.com/uc?export=download&id=ABC123''"
  "resolve demo_env ''/about'' = None"
  by code_simp+

lemma demo_streams:
  "http_stream demo_env ''https://example.com/files/notes.PDF''
     = Some \<lparr>status_code = 200, first_chunk = Some ''%PDF-1.7 notes'', remaining = '' more'',
              complete = True\<rparr>"
  "http_stream demo_env ''https://drive.google.com/uc?export=download&id=ABC123''
     = Some \<lparr>status_code = 200, first_chunk = Some ''<html>login</html>'', remaining = [],
              complete = True\<rparr>"
  "looks_like_pdf ''%PDF-1.7 notes''"
  "\<not> looks_like_pdf ''<html>login</html>''"
  by (simp_all add: demo_env_def demo_stream_def looks_like_pdf_def startswith_def)

lemma demo_harvest:
  "trace (download_release_pdfs demo_env init) =
     [Get_Index, Get_Release ''https://example.com/files/notes.PDF'',
      Downloaded ''releases/files_notes_PDF_3a4f7eb1.pdf''
        ''https://example.com/files/notes.PDF'',
      Get_Release ''https://drive.google.com/uc?export=download&id=ABC123'',
      Skip_Non_PDF ''https://drive.google.com/uc?export=download&id=ABC123'',
      Total_Saved 1]"
  "files (download_release_pdfs demo_env init)
     = [''releases/files_notes_PDF_3a4f7eb1.pdf'' \<mapsto> ''%PDF-1.7 notes more'']"
  by (simp_all add: download_release_pdfs_def harvest_one_def Let_def init_def log_def
      demo_index demo_streams demo_releases_files)

theorem non_pdf_download_is_skipped_witness:
  "harvest_one demo_env ''https://drive.google.com/file/d/ABC123/view'' (init, 0)
     = (log [Get_Release ''https://drive.google.com/uc?export=download&id=ABC123'',
             Skip_Non_PDF ''https://drive.google.com/uc?export=download&id=ABC123''] init, 0)
   \<and> files (download_release_pdfs demo_env init)
     = [''releases/files_notes_PDF_3a4f7eb1.pdf'' \<mapsto> ''%PDF-1.7 notes more'']
   \<and> adds_pdfs_only init (download_release_pdfs demo_env init)"
proof -
  have "files init (releases_file ''https://drive.google.com/uc?export=download&id=ABC123'') = None"
    by (simp add: init_def)
  then show ?thesis
    using non_pdf_download_is_skipped [of demo_env "''https://drive.google.com/file/d/ABC123/view''"
        "''https://drive.google.com/uc?export=download&id=ABC123''" init
        "\<lparr>status_code = 200, first_chunk = Some ''<html>login</html>'', remaining = [],
              complete = True\<rparr>" "''<html>login</html>''" 0]
      demo_index(4) demo_streams(2) demo_harvest(2)
    by simp
qed

end
